theory Spec2Isabelle
  imports Main
begin

section \<open>Data model\<close>

text \<open>
  The embedded file is the mongod side of the encrypted (FLE) write path:
  \<^verbatim>\<open>setMongosFieldsInReply\<close>, the class \<^verbatim>\<open>FLEMongoDResourceYielder\<close>,
  \<^verbatim>\<open>startFLECrud\<close>, \<^verbatim>\<open>stopFLECrud\<close> and \<^verbatim>\<open>processFLEInsert\<close>.

  Exceptions are values: a function that can throw returns \<open>ErrorCodes + 'a\<close>, with
  \<open>Inl\<close> the exception. The codes are the two the file names (the code caught by
  \<^verbatim>\<open>unyield\<close> and the numeric id of the \<^verbatim>\<open>uassert\<close>) and any other code.
\<close>

datatype ErrorCodes = NoSuchTransaction | Location nat | OtherError nat

text \<open>\<^verbatim>\<open>repl::ReplicationCoordinator::Mode\<close>, with the two constants the file uses.\<close>

datatype Mode = modeNone | modeReplSet

type_synonym OpTime = nat
type_synonym OID = nat
type_synonym LogicalSessionId = nat

text \<open>The facts the file reads from the replication coordinator.\<close>

record ReplicationCoordinator =
  getReplicationMode :: Mode
  getElectionId :: OID

text \<open>
  Modelled from the spec: the class \<^verbatim>\<open>TransactionParticipant\<close> is not part of the embedded
  file, which only stashes and unstashes the participant state of a session. The record
  keeps whether the resources are stashed and what the next unstash reports. The spec gives
  unstash the outcomes Restored, AlreadyAborted and Failed(err); in the code the last two
  are exceptions, AlreadyAborted being \<open>NoSuchTransaction\<close>. \<open>unstashThrows = None\<close> is the
  outcome Restored.
\<close>

record TransactionParticipant =
  resourcesStashed :: bool
  unstashThrows :: "ErrorCodes option"

text \<open>
  Modelled from the spec: a session owns its participant state while attached. The file
  tests what \<^verbatim>\<open>TransactionParticipant::get\<close> returns, so a session may have none.
\<close>

record Session =
  participantState :: "TransactionParticipant option"

text \<open>
  Modelled from the spec: the session registry (\<^verbatim>\<open>SessionCatalog\<close>) is a process-wide map
  from session identifier to the checked-in session.
\<close>

record ServiceContext =
  replicationCoordinator :: ReplicationCoordinator
  sessionCatalog :: "LogicalSessionId \<rightharpoonup> Session"

text \<open>\<^verbatim>\<open>ReplClientInfo::forClient(client).getLastOp()\<close>.\<close>

record Client =
  getLastOp :: OpTime

record OperationContext =
  getServiceContext :: ServiceContext
  getClient :: Client
  getLogicalSessionId :: LogicalSessionId
  checkedOutSession :: "Session option"

text \<open>
  The base of a write reply: the two optional fields the file sets, and the count \<open>n\<close>
  standing for the fields it never touches.
\<close>

record WriteCommandReplyBase =
  getN :: int
  opTime :: "OpTime option"
  electionId :: "OID option"

record InsertCommandReply =
  getWriteCommandReplyBase :: WriteCommandReplyBase

datatype FLEBatchResult = kNotProcessed | kProcessed

text \<open>\<^verbatim>\<open>ThreadPool::Options\<close>; \<open>maxThreads = None\<close> is \<^verbatim>\<open>kUnlimited\<close>.\<close>

record ThreadPoolOptions =
  poolName :: string
  maxThreads :: "nat option"

record ThreadPool =
  options :: ThreadPoolOptions

text \<open>
  The calls a function of the file makes on its collaborators, in program order. Every
  function below returns the list of the calls it made next to its result, so that
  "does not invoke" and "invokes before" are statements about that list.
  \<open>ThreadPoolJoin\<close> is \<^verbatim>\<open>ThreadPool::join\<close>.
\<close>

datatype Call =
    StashTransactionResources
  | CheckIn
  | CheckOut
  | UnstashTransactionResources string
  | ReplicationCoordinatorGet
  | GetReplicationMode
  | GetLastOp
  | GetElectionId
  | SetOpTime OpTime
  | SetElectionId OID
  | ProcessInsert
  | SetMongosFieldsInReply
  | ThreadPoolStartup
  | ThreadPoolShutdown
  | ThreadPoolJoin

text \<open>The calls that read from the replication subsystem.\<close>

fun readsReplication :: "Call \<Rightarrow> bool" where
  "readsReplication ReplicationCoordinatorGet = True"
| "readsReplication GetReplicationMode = True"
| "readsReplication GetLastOp = True"
| "readsReplication GetElectionId = True"
| "readsReplication _ = False"

text \<open>The calls that write one of the two optional fields of a reply.\<close>

fun isSetOpTime :: "Call \<Rightarrow> bool" where
  "isSetOpTime (SetOpTime t) = True"
| "isSetOpTime _ = False"

fun isSetElectionId :: "Call \<Rightarrow> bool" where
  "isSetElectionId (SetElectionId e) = True"
| "isSetElectionId _ = False"

section \<open>Collaborators\<close>

text \<open>
  Modelled from the spec: the setters of the reply's two optional fields (generated from the
  reply's IDL description, not part of the embedded file) set the field and nothing else.
\<close>

definition setOpTime :: "WriteCommandReplyBase \<Rightarrow> OpTime \<Rightarrow> WriteCommandReplyBase" where
  "setOpTime replyBase t = replyBase\<lparr>opTime := Some t\<rparr>"

definition setElectionId :: "WriteCommandReplyBase \<Rightarrow> OID \<Rightarrow> WriteCommandReplyBase" where
  "setElectionId replyBase e = replyBase\<lparr>electionId := Some e\<rparr>"

text \<open>
  Modelled from the spec: \<^verbatim>\<open>OperationContextSession::get\<close> is the session attached to the
  context, null when there is none.
\<close>

definition OperationContextSession_get :: "OperationContext \<Rightarrow> Session option" where
  "OperationContextSession_get opCtx = checkedOutSession opCtx"

text \<open>
  Modelled from the spec: \<^verbatim>\<open>TransactionParticipant::get\<close> is not part of the embedded file.
  The participant state belongs to the session attached to the context.
\<close>

definition TransactionParticipant_get :: "OperationContext \<Rightarrow> TransactionParticipant option" where
  "TransactionParticipant_get opCtx =
     (case checkedOutSession opCtx of
        None \<Rightarrow> None
      | Some s \<Rightarrow> participantState s)"

text \<open>
  Modelled from the spec: stash snapshots the participant state of the attached session.
\<close>

definition stashTransactionResources :: "OperationContext \<Rightarrow> OperationContext" where
  "stashTransactionResources opCtx =
     (case checkedOutSession opCtx of
        None \<Rightarrow> opCtx
      | Some s \<Rightarrow>
          opCtx\<lparr>checkedOutSession :=
            Some (s\<lparr>participantState :=
              map_option (\<lambda>p. p\<lparr>resourcesStashed := True\<rparr>) (participantState s)\<rparr>)\<rparr>)"

text \<open>
  Modelled from the spec: unstash restores the stashed state, or fails with the outcome the
  participant holds; a failed unstash changes nothing.
\<close>

definition unstashTransactionResources ::
  "OperationContext \<Rightarrow> string \<Rightarrow> ErrorCodes + OperationContext" where
  "unstashTransactionResources opCtx cmdName =
     (case checkedOutSession opCtx of
        None \<Rightarrow> Inr opCtx
      | Some s \<Rightarrow>
          (case participantState s of
             None \<Rightarrow> Inr opCtx
           | Some p \<Rightarrow>
               (case unstashThrows p of
                  Some e \<Rightarrow> Inl e
                | None \<Rightarrow>
                    Inr (opCtx\<lparr>checkedOutSession :=
                      Some (s\<lparr>participantState := Some (p\<lparr>resourcesStashed := False\<rparr>)\<rparr>)\<rparr>))))"

text \<open>
  Modelled from the spec: checkin detaches the session from the context and hands it back
  to the registry, under the context's session identifier.
\<close>

definition checkIn :: "OperationContext \<Rightarrow> OperationContext" where
  "checkIn opCtx =
     (case checkedOutSession opCtx of
        None \<Rightarrow> opCtx
      | Some s \<Rightarrow>
          opCtx\<lparr>getServiceContext :=
                  (getServiceContext opCtx)\<lparr>sessionCatalog :=
                    (sessionCatalog (getServiceContext opCtx))(getLogicalSessionId opCtx \<mapsto> s)\<rparr>,
                checkedOutSession := None\<rparr>)"

text \<open>
  Modelled from the spec: checkout takes the session of the context's identifier from the
  registry and attaches it to the context. (The wait for another holder is not modelled.)
\<close>

definition checkOut :: "OperationContext \<Rightarrow> OperationContext" where
  "checkOut opCtx =
     opCtx\<lparr>getServiceContext :=
             (getServiceContext opCtx)\<lparr>sessionCatalog :=
               (sessionCatalog (getServiceContext opCtx))(getLogicalSessionId opCtx := None)\<rparr>,
           checkedOutSession := sessionCatalog (getServiceContext opCtx) (getLogicalSessionId opCtx)\<rparr>"

text \<open>
  Modelled from the spec: the macro \<^verbatim>\<open>uassert(code, msg, cond)\<close> fails with the code unless
  the condition holds.
\<close>

definition uassert :: "nat \<Rightarrow> bool \<Rightarrow> ErrorCodes + unit" where
  "uassert code cond = (if cond then Inr () else Inl (Location code))"

section \<open>The file\<close>

definition getThreadPoolOptions :: ThreadPoolOptions where
  "getThreadPoolOptions = \<lparr>poolName = ''FLECrud'', maxThreads = None\<rparr>"

text \<open>
  \<^verbatim>\<open>setMongosFieldsInReply(opCtx, replyBase)\<close>: the reply is updated in place in the
  source and returned here, with the calls made.
\<close>

definition setMongosFieldsInReply ::
  "OperationContext \<Rightarrow> WriteCommandReplyBase \<Rightarrow> WriteCommandReplyBase \<times> Call list" where
  "setMongosFieldsInReply opCtx replyBase =
     (if opTime replyBase \<noteq> None \<and> electionId replyBase \<noteq> None then (replyBase, [])
      else
        let replCoord = replicationCoordinator (getServiceContext opCtx);
            replMode = getReplicationMode replCoord
        in if replMode \<noteq> modeNone then
             (setElectionId (setOpTime replyBase (getLastOp (getClient opCtx)))
                (getElectionId replCoord),
              [ReplicationCoordinatorGet, GetReplicationMode,
               GetLastOp, SetOpTime (getLastOp (getClient opCtx)),
               GetElectionId, SetElectionId (getElectionId replCoord)])
           else (replyBase, [ReplicationCoordinatorGet, GetReplicationMode]))"

text \<open>The class \<^verbatim>\<open>FLEMongoDResourceYielder\<close>: one private flag, initially false.\<close>

record FLEMongoDResourceYielder =
  yielded :: bool

definition FLEMongoDResourceYielder_new :: FLEMongoDResourceYielder where
  "FLEMongoDResourceYielder_new = \<lparr>yielded = False\<rparr>"

definition yield ::
  "FLEMongoDResourceYielder \<Rightarrow> OperationContext \<Rightarrow>
     (FLEMongoDResourceYielder \<times> OperationContext) \<times> Call list" where
  "yield this opCtx =
     (let session = OperationContextSession_get opCtx;
          (opCtx', calls) =
            (if session \<noteq> None then
               let (opCtx1, calls1) =
                     (case TransactionParticipant_get opCtx of
                        Some txnParticipant \<Rightarrow>
                          (stashTransactionResources opCtx, [StashTransactionResources])
                      | None \<Rightarrow> (opCtx, []))
               in (checkIn opCtx1, calls1 @ [CheckIn])
             else (opCtx, []))
      in ((this\<lparr>yielded := (session \<noteq> None)\<rparr>, opCtx'), calls))"

text \<open>
  \<^verbatim>\<open>unyield\<close> never writes the flag. Its result is \<open>Inr ()\<close> when it returns and \<open>Inl e\<close>
  when the exception \<open>e\<close> leaves it; the context is the one at that moment.
\<close>

definition unyield ::
  "FLEMongoDResourceYielder \<Rightarrow> OperationContext \<Rightarrow>
     ((ErrorCodes + unit) \<times> OperationContext) \<times> Call list" where
  "unyield this opCtx =
     (if yielded this then
        let opCtx1 = checkOut opCtx in
        (case TransactionParticipant_get opCtx1 of
           Some txnParticipant \<Rightarrow>
             (case unstashTransactionResources opCtx1 ''aggregate'' of
                Inr opCtx2 \<Rightarrow>
                  ((Inr (), opCtx2), [CheckOut, UnstashTransactionResources ''aggregate''])
              | Inl e \<Rightarrow>
                  if e = NoSuchTransaction then
                    ((Inr (), opCtx1), [CheckOut, UnstashTransactionResources ''aggregate''])
                  else
                    ((Inl e, opCtx1), [CheckOut, UnstashTransactionResources ''aggregate'']))
         | None \<Rightarrow> ((Inr (), opCtx1), [CheckOut]))
      else ((Inr (), opCtx), []))"

text \<open>
  The global \<^verbatim>\<open>_fleCrudthreadPool\<close> is a shared pointer, null until \<^verbatim>\<open>startFLECrud\<close>
  assigns it: an option, passed in and returned.
\<close>

definition startFLECrud ::
  "ServiceContext \<Rightarrow> ThreadPool option \<Rightarrow> ThreadPool option \<times> Call list" where
  "startFLECrud serviceContext fleCrudthreadPool =
     (if getReplicationMode (replicationCoordinator serviceContext) = modeNone then
        (fleCrudthreadPool, [ReplicationCoordinatorGet, GetReplicationMode])
      else
        (Some \<lparr>options = getThreadPoolOptions\<rparr>,
         [ReplicationCoordinatorGet, GetReplicationMode, ThreadPoolStartup]))"

definition stopFLECrud :: "ThreadPool option \<Rightarrow> ThreadPool option \<times> Call list" where
  "stopFLECrud fleCrudthreadPool =
     (if fleCrudthreadPool \<noteq> None then (fleCrudthreadPool, [ThreadPoolShutdown])
      else (fleCrudthreadPool, []))"

text \<open>
  \<^verbatim>\<open>processFLEInsert(opCtx, insertRequest, insertReply)\<close>. \<^verbatim>\<open>processInsert\<close> (the
  transformation layer, which runs the transaction on the pool through the callback
  \<^verbatim>\<open>getTransactionWithRetriesForMongoD\<close>) is not part of the embedded file: it is the
  parameter \<open>processInsert\<close>, any function that returns a pair or throws. The out-parameter
  \<open>insertReply\<close> is returned next to the result.
\<close>

definition processFLEInsert ::
  "(OperationContext \<Rightarrow> 'req \<Rightarrow> ErrorCodes + FLEBatchResult \<times> InsertCommandReply) \<Rightarrow>
   OperationContext \<Rightarrow> 'req \<Rightarrow> InsertCommandReply \<Rightarrow>
     ((ErrorCodes + FLEBatchResult) \<times> InsertCommandReply) \<times> Call list" where
  "processFLEInsert processInsert opCtx insertRequest insertReply =
     (case uassert 6371602
             (getReplicationMode (replicationCoordinator (getServiceContext opCtx)) = modeReplSet) of
        Inl e \<Rightarrow> ((Inl e, insertReply), [ReplicationCoordinatorGet, GetReplicationMode])
      | Inr _ \<Rightarrow>
          (case processInsert opCtx insertRequest of
             Inl e \<Rightarrow>
               ((Inl e, insertReply),
                [ReplicationCoordinatorGet, GetReplicationMode, ProcessInsert])
           | Inr (batchResult, insertReplyReturn) \<Rightarrow>
               if batchResult = kNotProcessed then
                 ((Inr kNotProcessed, insertReply),
                  [ReplicationCoordinatorGet, GetReplicationMode, ProcessInsert])
               else
                 let (replyBase, calls) =
                       setMongosFieldsInReply opCtx (getWriteCommandReplyBase insertReplyReturn)
                 in ((Inr kProcessed,
                      insertReplyReturn\<lparr>getWriteCommandReplyBase := replyBase\<rparr>),
                     [ReplicationCoordinatorGet, GetReplicationMode, ProcessInsert,
                      SetMongosFieldsInReply] @ calls)))"

section \<open>Example inputs\<close>

text \<open>
  A service context of a node in the given replication mode with election id 7 and an empty
  registry; an operation context on it for session 1, whose client last wrote at position
  42; a session whose participant reports the given outcome on unstash; a reply base.
\<close>

definition exServiceContext :: "Mode \<Rightarrow> ServiceContext" where
  "exServiceContext m =
     \<lparr>replicationCoordinator = \<lparr>getReplicationMode = m, getElectionId = 7\<rparr>,
      sessionCatalog = Map.empty\<rparr>"

definition exOpCtx :: "Mode \<Rightarrow> Session option \<Rightarrow> OperationContext" where
  "exOpCtx m s =
     \<lparr>getServiceContext = exServiceContext m, getClient = \<lparr>getLastOp = 42\<rparr>,
      getLogicalSessionId = 1, checkedOutSession = s\<rparr>"

definition exSession :: "ErrorCodes option \<Rightarrow> Session" where
  "exSession e = \<lparr>participantState = Some \<lparr>resourcesStashed = False, unstashThrows = e\<rparr>\<rparr>"

definition exReply :: "OpTime option \<Rightarrow> OID option \<Rightarrow> WriteCommandReplyBase" where
  "exReply t e = \<lparr>getN = 1, opTime = t, electionId = e\<rparr>"

text \<open>The yielder and the context after a fresh yielder has yielded such a session.\<close>

definition exYielded :: "ErrorCodes option \<Rightarrow> FLEMongoDResourceYielder \<times> OperationContext" where
  "exYielded e =
     fst (yield FLEMongoDResourceYielder_new (exOpCtx modeReplSet (Some (exSession e))))"

lemmas ex_defs = exServiceContext_def exOpCtx_def exSession_def exReply_def

lemma exYielded_eval:
  "exYielded e =
     (\<lparr>yielded = True\<rparr>,
      \<lparr>getServiceContext =
         \<lparr>replicationCoordinator = \<lparr>getReplicationMode = modeReplSet, getElectionId = 7\<rparr>,
          sessionCatalog =
            [1 \<mapsto> \<lparr>participantState = Some \<lparr>resourcesStashed = True, unstashThrows = e\<rparr>\<rparr>]\<rparr>,
       getClient = \<lparr>getLastOp = 42\<rparr>, getLogicalSessionId = 1, checkedOutSession = None\<rparr>)"
  by (simp add: exYielded_def ex_defs yield_def OperationContextSession_get_def
        TransactionParticipant_get_def stashTransactionResources_def checkIn_def
        FLEMongoDResourceYielder_new_def)

section \<open>The resource yielder\<close>

text \<open>
  C1. \<^verbatim>\<open>yield\<close> on a context with an attached session stashes the participant state when
  the session has a participant, then checks the session in, and sets the flag: the calls
  are the stash (if any) followed by the checkin, the context has no session afterwards and
  the registry holds the session, its participant stashed, under the context's identifier.
  On a context with no session it makes no call, leaves the context as it is and clears
  the flag.
\<close>

theorem yield_stash_then_checkIn:
  "(checkedOutSession opCtx = Some s \<longrightarrow>
      snd (yield this opCtx) =
        (if participantState s \<noteq> None then [StashTransactionResources] else []) @ [CheckIn]
      \<and> yielded (fst (fst (yield this opCtx)))
      \<and> checkedOutSession (snd (fst (yield this opCtx))) = None
      \<and> sessionCatalog (getServiceContext (snd (fst (yield this opCtx))))
            (getLogicalSessionId opCtx) =
          Some (s\<lparr>participantState :=
                   map_option (\<lambda>p. p\<lparr>resourcesStashed := True\<rparr>) (participantState s)\<rparr>))
   \<and> (checkedOutSession opCtx = None \<longrightarrow>
      yield this opCtx = ((this\<lparr>yielded := False\<rparr>, opCtx), []))"
  by (cases "participantState s")
     (auto simp: yield_def OperationContextSession_get_def TransactionParticipant_get_def
        stashTransactionResources_def checkIn_def Let_def)

text \<open>
  A fresh yielder on a context with a session in a transaction, and a yielder whose flag
  is set on a context with no session.
\<close>

theorem yield_stash_then_checkIn_witness:
  "checkedOutSession (exOpCtx modeReplSet (Some (exSession None))) = Some (exSession None)
   \<and> snd (yield FLEMongoDResourceYielder_new (exOpCtx modeReplSet (Some (exSession None)))) =
       [StashTransactionResources, CheckIn]
   \<and> yielded (fst (fst (yield FLEMongoDResourceYielder_new
         (exOpCtx modeReplSet (Some (exSession None))))))
   \<and> checkedOutSession (exOpCtx modeReplSet None) = None
   \<and> yield \<lparr>yielded = True\<rparr> (exOpCtx modeReplSet None) =
       ((\<lparr>yielded = False\<rparr>, exOpCtx modeReplSet None), [])"
  using yield_stash_then_checkIn
          [where opCtx = "exOpCtx modeReplSet (Some (exSession None))"
             and s = "exSession None" and this = FLEMongoDResourceYielder_new]
        yield_stash_then_checkIn
          [where opCtx = "exOpCtx modeReplSet None" and s = "exSession None"
             and this = "\<lparr>yielded = True\<rparr>"]
  by (simp add: ex_defs)

text \<open>
  C2. \<^verbatim>\<open>unyield\<close> with the flag set, on a context whose session in the registry has a
  participant: it checks the session out and unstashes. When the unstash throws
  \<open>NoSuchTransaction\<close>, \<^verbatim>\<open>unyield\<close> returns normally; when it throws any other code, that
  exception leaves \<^verbatim>\<open>unyield\<close>.
\<close>

theorem unyield_swallows_only_NoSuchTransaction:
  assumes "yielded this"
    and "sessionCatalog (getServiceContext opCtx) (getLogicalSessionId opCtx) = Some s"
    and "participantState s = Some p"
    and "unstashThrows p = Some e"
  shows "fst (fst (unyield this opCtx)) = (if e = NoSuchTransaction then Inr () else Inl e)
       \<and> snd (unyield this opCtx) = [CheckOut, UnstashTransactionResources ''aggregate'']"
  using assms
  by (simp add: unyield_def checkOut_def TransactionParticipant_get_def
        unstashTransactionResources_def)

text \<open>
  The yielder and context left by a yield, for a transaction already aborted and for one
  whose unstash fails with another code.
\<close>

theorem unyield_swallows_only_NoSuchTransaction_witness:
  "yielded (fst (exYielded (Some NoSuchTransaction)))
   \<and> fst (fst (unyield (fst (exYielded (Some NoSuchTransaction)))
                        (snd (exYielded (Some NoSuchTransaction))))) = Inr ()
   \<and> yielded (fst (exYielded (Some (OtherError 11000))))
   \<and> fst (fst (unyield (fst (exYielded (Some (OtherError 11000))))
                        (snd (exYielded (Some (OtherError 11000)))))) =
       Inl (OtherError 11000)"
  using unyield_swallows_only_NoSuchTransaction
          [where this = "fst (exYielded (Some NoSuchTransaction))"
             and opCtx = "snd (exYielded (Some NoSuchTransaction))"
             and s = "\<lparr>participantState =
                        Some \<lparr>resourcesStashed = True, unstashThrows = Some NoSuchTransaction\<rparr>\<rparr>"
             and p = "\<lparr>resourcesStashed = True, unstashThrows = Some NoSuchTransaction\<rparr>"
             and e = NoSuchTransaction]
        unyield_swallows_only_NoSuchTransaction
          [where this = "fst (exYielded (Some (OtherError 11000)))"
             and opCtx = "snd (exYielded (Some (OtherError 11000)))"
             and s = "\<lparr>participantState =
                        Some \<lparr>resourcesStashed = True, unstashThrows = Some (OtherError 11000)\<rparr>\<rparr>"
             and p = "\<lparr>resourcesStashed = True, unstashThrows = Some (OtherError 11000)\<rparr>"
             and e = "OtherError 11000"]
  by (simp add: exYielded_eval)

text \<open>
  C3. \<^verbatim>\<open>unyield\<close> with the flag clear makes no call (no checkout, no unstash), leaves the
  context as it is and returns normally; a fresh yielder has the flag clear, so its
  \<^verbatim>\<open>unyield\<close> does nothing; and the flag, which only \<^verbatim>\<open>yield\<close> writes, is set by a
  \<^verbatim>\<open>yield\<close> exactly when that \<^verbatim>\<open>yield\<close> found a session on the context, so the
  \<^verbatim>\<open>unyield\<close> after a \<^verbatim>\<open>yield\<close> that released nothing does nothing, whatever the
  flag was before.
\<close>

theorem unyield_noop_unless_yielded:
  "(\<not> yielded this \<longrightarrow> unyield this opCtx = ((Inr (), opCtx), []))
   \<and> unyield FLEMongoDResourceYielder_new opCtx = ((Inr (), opCtx), [])
   \<and> yielded (fst (fst (yield this opCtx))) = (checkedOutSession opCtx \<noteq> None)
   \<and> (checkedOutSession opCtx = None \<longrightarrow>
        unyield (fst (fst (yield this opCtx))) opCtx' = ((Inr (), opCtx'), []))"
  by (simp add: unyield_def yield_def FLEMongoDResourceYielder_new_def
        OperationContextSession_get_def Let_def split: prod.splits)

text \<open>A yielder whose last yield found no session: its flag is clear.\<close>

theorem unyield_noop_unless_yielded_witness:
  "\<not> yielded (fst (fst (yield \<lparr>yielded = True\<rparr> (exOpCtx modeReplSet None))))
   \<and> unyield (fst (fst (yield \<lparr>yielded = True\<rparr> (exOpCtx modeReplSet None))))
        (exOpCtx modeReplSet None) = ((Inr (), exOpCtx modeReplSet None), [])"
  using unyield_noop_unless_yielded
          [where this = "fst (fst (yield \<lparr>yielded = True\<rparr> (exOpCtx modeReplSet None)))"
             and opCtx = "exOpCtx modeReplSet None"]
        unyield_noop_unless_yielded
          [where this = "\<lparr>yielded = True\<rparr>" and opCtx = "exOpCtx modeReplSet None"
             and opCtx' = "exOpCtx modeReplSet None"]
  by (simp add: ex_defs)

text \<open>
  C10. On a context whose attached session has no transaction participant, \<^verbatim>\<open>yield\<close>
  makes the one call checkin, no stash, and sets the flag; afterwards no session is
  attached to the context and the registry holds the session, unchanged, under the
  context's identifier. The \<^verbatim>\<open>unyield\<close> that follows makes the one call checkout, no
  unstash, and returns normally, with the same session attached again and its registry
  entry taken.
\<close>

theorem yield_unyield_without_participant:
  assumes "checkedOutSession opCtx = Some s"
    and "participantState s = None"
  shows "snd (yield this opCtx) = [CheckIn]
       \<and> yielded (fst (fst (yield this opCtx)))
       \<and> checkedOutSession (snd (fst (yield this opCtx))) = None
       \<and> sessionCatalog (getServiceContext (snd (fst (yield this opCtx))))
           (getLogicalSessionId opCtx) = Some s
       \<and> unyield (fst (fst (yield this opCtx))) (snd (fst (yield this opCtx))) =
           ((Inr (), opCtx\<lparr>getServiceContext :=
               (getServiceContext opCtx)\<lparr>sessionCatalog :=
                 (sessionCatalog (getServiceContext opCtx))(getLogicalSessionId opCtx := None)\<rparr>\<rparr>),
            [CheckOut])
       \<and> checkedOutSession
           (snd (fst (unyield (fst (fst (yield this opCtx))) (snd (fst (yield this opCtx)))))) =
           Some s"
  using assms
  by (simp add: yield_def unyield_def OperationContextSession_get_def
        TransactionParticipant_get_def checkIn_def checkOut_def)

theorem yield_unyield_without_participant_witness:
  "snd (yield FLEMongoDResourceYielder_new
          (exOpCtx modeReplSet (Some \<lparr>participantState = None\<rparr>))) = [CheckIn]
   \<and> checkedOutSession (snd (fst (yield FLEMongoDResourceYielder_new
          (exOpCtx modeReplSet (Some \<lparr>participantState = None\<rparr>))))) = None
   \<and> unyield
        (fst (fst (yield FLEMongoDResourceYielder_new
           (exOpCtx modeReplSet (Some \<lparr>participantState = None\<rparr>)))))
        (snd (fst (yield FLEMongoDResourceYielder_new
           (exOpCtx modeReplSet (Some \<lparr>participantState = None\<rparr>))))) =
       ((Inr (), exOpCtx modeReplSet (Some \<lparr>participantState = None\<rparr>)), [CheckOut])"
  using yield_unyield_without_participant
          [where opCtx = "exOpCtx modeReplSet (Some \<lparr>participantState = None\<rparr>)"
             and s = "\<lparr>participantState = None\<rparr>" and this = FLEMongoDResourceYielder_new]
  by (simp add: ex_defs)

section \<open>The thread pool\<close>

text \<open>
  On a pool that \<^verbatim>\<open>startFLECrud\<close> started, \<^verbatim>\<open>stopFLECrud\<close> makes one call on the
  pool, \<^verbatim>\<open>shutdown\<close>; \<^verbatim>\<open>join\<close> is not among its calls.
\<close>

theorem stopFLECrud_no_join_counterexample:
  "fst (startFLECrud (exServiceContext modeReplSet) None) \<noteq> None
   \<and> snd (stopFLECrud (fst (startFLECrud (exServiceContext modeReplSet) None))) =
       [ThreadPoolShutdown]
   \<and> ThreadPoolJoin \<notin>
       set (snd (stopFLECrud (fst (startFLECrud (exServiceContext modeReplSet) None))))"
  by (simp add: stopFLECrud_def startFLECrud_def exServiceContext_def)

text \<open>
  C5, amended. \<^verbatim>\<open>stopFLECrud\<close> makes no call and leaves the pool pointer null when the
  pool was never started, as on a standalone node, where \<^verbatim>\<open>startFLECrud\<close> leaves the
  pointer null; when the pool was started, its one call is \<^verbatim>\<open>shutdown\<close> on the pool,
  and the pointer keeps the pool.
\<close>

theorem stopFLECrud_shutdown_only:
  "(fleCrudthreadPool = None \<longrightarrow> stopFLECrud fleCrudthreadPool = (None, []))
   \<and> (fleCrudthreadPool \<noteq> None \<longrightarrow>
        stopFLECrud fleCrudthreadPool = (fleCrudthreadPool, [ThreadPoolShutdown]))
   \<and> (getReplicationMode (replicationCoordinator serviceContext) = modeNone \<longrightarrow>
        stopFLECrud (fst (startFLECrud serviceContext None)) = (None, []))"
  by (simp add: stopFLECrud_def startFLECrud_def)

theorem stopFLECrud_shutdown_only_witness:
  "stopFLECrud None = (None, [])
   \<and> stopFLECrud (Some \<lparr>options = getThreadPoolOptions\<rparr>) =
       (Some \<lparr>options = getThreadPoolOptions\<rparr>, [ThreadPoolShutdown])
   \<and> getReplicationMode (replicationCoordinator (exServiceContext modeNone)) = modeNone
   \<and> stopFLECrud (fst (startFLECrud (exServiceContext modeNone) None)) = (None, [])"
  using stopFLECrud_shutdown_only
          [where fleCrudthreadPool = None and serviceContext = "exServiceContext modeNone"]
        stopFLECrud_shutdown_only
          [where fleCrudthreadPool = "Some \<lparr>options = getThreadPoolOptions\<rparr>"
             and serviceContext = "exServiceContext modeNone"]
  by (simp add: exServiceContext_def)

section \<open>The reply fields\<close>

text \<open>
  Two contexts on the same service context, so with the same replication coordinator,
  whose clients last wrote at 42 and at 0: the same empty reply leaves with \<open>opTime\<close> 42
  on the one and 0 on the other. The position written is the calling client's, not a
  value of the coordinator.
\<close>

theorem setMongosFieldsInReply_client_position_counterexample:
  "getServiceContext ((exOpCtx modeReplSet None)\<lparr>getClient := \<lparr>getLastOp = 0\<rparr>\<rparr>) =
     getServiceContext (exOpCtx modeReplSet None)
   \<and> opTime (fst (setMongosFieldsInReply (exOpCtx modeReplSet None) (exReply None None))) =
       Some 42
   \<and> opTime (fst (setMongosFieldsInReply
        ((exOpCtx modeReplSet None)\<lparr>getClient := \<lparr>getLastOp = 0\<rparr>\<rparr>) (exReply None None))) =
       Some 0
   \<and> fst (setMongosFieldsInReply (exOpCtx modeReplSet None) (exReply None None)) \<noteq>
     fst (setMongosFieldsInReply
        ((exOpCtx modeReplSet None)\<lparr>getClient := \<lparr>getLastOp = 0\<rparr>\<rparr>) (exReply None None))"
  by (simp add: ex_defs setMongosFieldsInReply_def setOpTime_def setElectionId_def)

text \<open>
  C6, amended. \<^verbatim>\<open>setMongosFieldsInReply\<close> returns the reply as it is when both \<open>opTime\<close>
  and \<open>electionId\<close> are set; otherwise, on a node whose mode is not \<open>modeNone\<close>, it sets
  \<open>opTime\<close> to the last op time of the context's client (read through
  \<^verbatim>\<open>ReplClientInfo\<close>, not from the coordinator) and \<open>electionId\<close> to the coordinator's
  election id, and changes nothing else; on a node whose mode is \<open>modeNone\<close> it returns the
  reply as it is.
\<close>

theorem setMongosFieldsInReply_spec:
  "(opTime replyBase \<noteq> None \<and> electionId replyBase \<noteq> None \<longrightarrow>
      fst (setMongosFieldsInReply opCtx replyBase) = replyBase)
   \<and> (\<not> (opTime replyBase \<noteq> None \<and> electionId replyBase \<noteq> None)
        \<and> getReplicationMode (replicationCoordinator (getServiceContext opCtx)) \<noteq> modeNone \<longrightarrow>
      fst (setMongosFieldsInReply opCtx replyBase) =
        replyBase\<lparr>opTime := Some (getLastOp (getClient opCtx)),
                  electionId :=
                    Some (getElectionId (replicationCoordinator (getServiceContext opCtx)))\<rparr>)
   \<and> (getReplicationMode (replicationCoordinator (getServiceContext opCtx)) = modeNone \<longrightarrow>
      fst (setMongosFieldsInReply opCtx replyBase) = replyBase)"
  by (auto simp: setMongosFieldsInReply_def setOpTime_def setElectionId_def Let_def)

theorem setMongosFieldsInReply_spec_witness:
  "fst (setMongosFieldsInReply (exOpCtx modeReplSet None) (exReply (Some 5) (Some 6))) =
     exReply (Some 5) (Some 6)
   \<and> fst (setMongosFieldsInReply (exOpCtx modeReplSet None) (exReply None None)) =
     exReply (Some 42) (Some 7)
   \<and> fst (setMongosFieldsInReply (exOpCtx modeNone None) (exReply None None)) =
     exReply None None"
  using setMongosFieldsInReply_spec
          [where opCtx = "exOpCtx modeReplSet None" and replyBase = "exReply (Some 5) (Some 6)"]
        setMongosFieldsInReply_spec
          [where opCtx = "exOpCtx modeReplSet None" and replyBase = "exReply None None"]
        setMongosFieldsInReply_spec
          [where opCtx = "exOpCtx modeNone None" and replyBase = "exReply None None"]
  by (simp add: ex_defs)

text \<open>
  C7. Applying \<^verbatim>\<open>setMongosFieldsInReply\<close> to its own result, on the same context, gives
  that result again; and on a reply with both fields set it makes no call at all, so none
  that reads the replication coordinator or the client's replication info.
\<close>

theorem setMongosFieldsInReply_idempotent:
  "fst (setMongosFieldsInReply opCtx (fst (setMongosFieldsInReply opCtx replyBase))) =
     fst (setMongosFieldsInReply opCtx replyBase)
   \<and> (opTime replyBase \<noteq> None \<and> electionId replyBase \<noteq> None \<longrightarrow>
        snd (setMongosFieldsInReply opCtx replyBase) = []
        \<and> filter readsReplication (snd (setMongosFieldsInReply opCtx replyBase)) = [])"
  by (simp add: setMongosFieldsInReply_def setOpTime_def setElectionId_def Let_def)

theorem setMongosFieldsInReply_idempotent_witness:
  "fst (setMongosFieldsInReply (exOpCtx modeReplSet None)
          (fst (setMongosFieldsInReply (exOpCtx modeReplSet None) (exReply None None)))) =
     exReply (Some 42) (Some 7)
   \<and> snd (setMongosFieldsInReply (exOpCtx modeReplSet None) (exReply (Some 5) (Some 6))) = []"
  using setMongosFieldsInReply_idempotent
          [where opCtx = "exOpCtx modeReplSet None" and replyBase = "exReply None None"]
        setMongosFieldsInReply_idempotent
          [where opCtx = "exOpCtx modeReplSet None" and replyBase = "exReply (Some 5) (Some 6)"]
  by (simp add: ex_defs setMongosFieldsInReply_def setOpTime_def setElectionId_def)

text \<open>
  A reply that enters with \<open>opTime\<close> set to 5 and \<open>electionId\<close> unset, on a replica-set
  node whose client last wrote at 42, leaves with \<open>opTime\<close> 42: the field that was set
  is overwritten.
\<close>

theorem setMongosFieldsInReply_overwrites_counterexample:
  "opTime (exReply (Some 5) None) = Some 5
   \<and> opTime (fst (setMongosFieldsInReply (exOpCtx modeReplSet None) (exReply (Some 5) None))) =
       Some 42"
  by (simp add: ex_defs setMongosFieldsInReply_def setOpTime_def setElectionId_def)

text \<open>
  C8, amended. One run of \<^verbatim>\<open>setMongosFieldsInReply\<close> calls each of the two setters at
  most once, and a second run on its result calls neither. A reply that enters with both
  fields set, or on a node whose mode is \<open>modeNone\<close>, is returned as it is, with no setter
  called. A reply that enters with a field unset on a node whose mode is not \<open>modeNone\<close>
  leaves with both fields written from the node's values, whatever one of them held.
\<close>

theorem setMongosFieldsInReply_sets_at_most_once:
  "length (filter isSetOpTime (snd (setMongosFieldsInReply opCtx replyBase))) \<le> 1
   \<and> length (filter isSetElectionId (snd (setMongosFieldsInReply opCtx replyBase))) \<le> 1
   \<and> filter isSetOpTime
        (snd (setMongosFieldsInReply opCtx (fst (setMongosFieldsInReply opCtx replyBase)))) = []
   \<and> filter isSetElectionId
        (snd (setMongosFieldsInReply opCtx (fst (setMongosFieldsInReply opCtx replyBase)))) = []
   \<and> ((opTime replyBase \<noteq> None \<and> electionId replyBase \<noteq> None)
        \<or> getReplicationMode (replicationCoordinator (getServiceContext opCtx)) = modeNone \<longrightarrow>
      fst (setMongosFieldsInReply opCtx replyBase) = replyBase
      \<and> filter isSetOpTime (snd (setMongosFieldsInReply opCtx replyBase)) = []
      \<and> filter isSetElectionId (snd (setMongosFieldsInReply opCtx replyBase)) = [])
   \<and> (\<not> (opTime replyBase \<noteq> None \<and> electionId replyBase \<noteq> None)
        \<and> getReplicationMode (replicationCoordinator (getServiceContext opCtx)) \<noteq> modeNone \<longrightarrow>
      opTime (fst (setMongosFieldsInReply opCtx replyBase)) = Some (getLastOp (getClient opCtx))
      \<and> electionId (fst (setMongosFieldsInReply opCtx replyBase)) =
          Some (getElectionId (replicationCoordinator (getServiceContext opCtx))))"
  by (simp add: setMongosFieldsInReply_def setOpTime_def setElectionId_def Let_def)

theorem setMongosFieldsInReply_sets_at_most_once_witness:
  "fst (setMongosFieldsInReply (exOpCtx modeReplSet None) (exReply (Some 5) (Some 6))) =
     exReply (Some 5) (Some 6)
   \<and> fst (setMongosFieldsInReply (exOpCtx modeNone None) (exReply (Some 5) None)) =
     exReply (Some 5) None
   \<and> fst (setMongosFieldsInReply (exOpCtx modeReplSet None) (exReply (Some 5) None)) =
     exReply (Some 42) (Some 7)"
  using setMongosFieldsInReply_sets_at_most_once
          [where opCtx = "exOpCtx modeReplSet None" and replyBase = "exReply (Some 5) (Some 6)"]
        setMongosFieldsInReply_sets_at_most_once
          [where opCtx = "exOpCtx modeNone None" and replyBase = "exReply (Some 5) None"]
        setMongosFieldsInReply_sets_at_most_once
          [where opCtx = "exOpCtx modeReplSet None" and replyBase = "exReply (Some 5) None"]
  by (simp add: ex_defs setMongosFieldsInReply_def setOpTime_def setElectionId_def)

section \<open>The insert entry point\<close>

text \<open>
  C4. On a node whose replication mode is \<open>modeNone\<close>, \<^verbatim>\<open>processFLEInsert\<close> throws the
  assertion 6371602 whatever \<^verbatim>\<open>processInsert\<close> would do: its only calls are the two that
  read the mode, once, so \<^verbatim>\<open>processInsert\<close> (the transformation layer, and through it the
  transaction with retries and the pool) is not invoked, nothing is attempted again, and
  the caller's reply is not written.
\<close>

theorem processFLEInsert_standalone_fails:
  assumes "getReplicationMode (replicationCoordinator (getServiceContext opCtx)) = modeNone"
  shows "processFLEInsert processInsert opCtx insertRequest insertReply =
           ((Inl (Location 6371602), insertReply),
            [ReplicationCoordinatorGet, GetReplicationMode])"
  using assms by (simp add: processFLEInsert_def uassert_def)

text \<open>A standalone node, with a \<^verbatim>\<open>processInsert\<close> that would have processed the request.\<close>

theorem processFLEInsert_standalone_fails_witness:
  "getReplicationMode (replicationCoordinator (getServiceContext (exOpCtx modeNone None))) =
     modeNone
   \<and> processFLEInsert
        (\<lambda>opCtx req. Inr (kProcessed, \<lparr>getWriteCommandReplyBase = exReply None None\<rparr>))
        (exOpCtx modeNone None) (0::nat)
        \<lparr>getWriteCommandReplyBase = exReply (Some 5) None\<rparr> =
      ((Inl (Location 6371602), \<lparr>getWriteCommandReplyBase = exReply (Some 5) None\<rparr>),
       [ReplicationCoordinatorGet, GetReplicationMode])"
  using processFLEInsert_standalone_fails
          [where opCtx = "exOpCtx modeNone None"
             and processInsert =
               "\<lambda>opCtx req. Inr (kProcessed, \<lparr>getWriteCommandReplyBase = exReply None None\<rparr>)"
             and insertRequest = "0::nat"
             and insertReply = "\<lparr>getWriteCommandReplyBase = exReply (Some 5) None\<rparr>"]
  by (simp add: ex_defs)

text \<open>
  C9. On a replica-set node, when \<^verbatim>\<open>processInsert\<close> reports \<open>kNotProcessed\<close>,
  \<^verbatim>\<open>processFLEInsert\<close> returns \<open>kNotProcessed\<close>, the caller's reply is as it was, whatever
  reply \<^verbatim>\<open>processInsert\<close> returned, and \<^verbatim>\<open>setMongosFieldsInReply\<close> is not called.
\<close>

theorem processFLEInsert_not_processed:
  assumes "getReplicationMode (replicationCoordinator (getServiceContext opCtx)) = modeReplSet"
    and "processInsert opCtx insertRequest = Inr (kNotProcessed, insertReplyReturn)"
  shows "processFLEInsert processInsert opCtx insertRequest insertReply =
           ((Inr kNotProcessed, insertReply),
            [ReplicationCoordinatorGet, GetReplicationMode, ProcessInsert])
         \<and> SetMongosFieldsInReply \<notin>
             set (snd (processFLEInsert processInsert opCtx insertRequest insertReply))"
  using assms by (simp add: processFLEInsert_def uassert_def)

theorem processFLEInsert_not_processed_witness:
  "processFLEInsert
     (\<lambda>opCtx req. Inr (kNotProcessed, \<lparr>getWriteCommandReplyBase = exReply (Some 1) None\<rparr>))
     (exOpCtx modeReplSet None) (0::nat) \<lparr>getWriteCommandReplyBase = exReply None None\<rparr> =
   ((Inr kNotProcessed, \<lparr>getWriteCommandReplyBase = exReply None None\<rparr>),
    [ReplicationCoordinatorGet, GetReplicationMode, ProcessInsert])"
  using processFLEInsert_not_processed
          [where opCtx = "exOpCtx modeReplSet None"
             and processInsert =
               "\<lambda>opCtx req. Inr (kNotProcessed,
                  \<lparr>getWriteCommandReplyBase = exReply (Some 1) None\<rparr>)"
             and insertRequest = "0::nat"
             and insertReplyReturn = "\<lparr>getWriteCommandReplyBase = exReply (Some 1) None\<rparr>"
             and insertReply = "\<lparr>getWriteCommandReplyBase = exReply None None\<rparr>"]
  by (simp add: ex_defs)

end
